theory Spec2Isabelle
  imports Complex_Main
begin

section \<open>The reset callback of the EEM scan plot\<close>

text \<open>
  The source is \<^verbatim>\<open>src/sgmdata/plots/callbacks/eemscan/reset_2.x.x.js\<close>, the body of a
  Bokeh \<^verbatim>\<open>CustomJS\<close> callback. Its six free variables \<^verbatim>\<open>xrf\<close>, \<^verbatim>\<open>xas\<close>, \<^verbatim>\<open>sel\<close>,
  \<^verbatim>\<open>fluo\<close>, \<^verbatim>\<open>det\<close> and \<^verbatim>\<open>alter\<close> are bound by the host to Bokeh models: the first four
  are column data sources, the last two are widgets.
\<close>

subsection \<open>Values and objects\<close>

text \<open>
  The values the callback moves around: \<^verbatim>\<open>undefined\<close> (what reading an absent key of a
  JavaScript object yields), numbers, and arrays. The callback does no arithmetic and
  never writes into an array, it only builds \<^verbatim>\<open>[]\<close> and \<^verbatim>\<open>[0]\<close> and stores arrays under
  keys, so an array is modelled by its contents.
\<close>

datatype val = Undefined | Num real | Arr "val list"

text \<open>
  A \<^verbatim>\<open>data\<close> object is a JavaScript object used as a dictionary from column names to
  values. Objects live in a store and are reached through addresses, so that two
  variables may name the same object, as \<^verbatim>\<open>d2\<close> and \<^verbatim>\<open>xrf.data\<close> do in the source.
\<close>

type_synonym addr = nat
type_synonym dict = "string \<rightharpoonup> val"
type_synonym store = "addr \<Rightarrow> dict"

datatype handle = Xrf | Xas | Sel | Fluo | Det | Alter

text \<open>
  The state the callback works on: for every model the address of the object behind its
  \<^verbatim>\<open>data\<close> property (the callback reads it for the four sources only), the store of these
  objects, the \<^verbatim>\<open>active\<close> property of every model (the callback writes it for the two
  widgets only), and the change notifications emitted so far, oldest first, each with
  the store as the notified observers find it.
\<close>

record state =
  data :: "handle \<Rightarrow> addr"
  heap :: store
  active :: "handle \<Rightarrow> val"
  emitted :: "(handle \<times> store) list"

subsection \<open>Statements\<close>

text \<open>\<^verbatim>\<open>d[k]\<close> as an expression: the value under the key, \<^verbatim>\<open>undefined\<close> when absent.\<close>

definition get_item :: "dict \<Rightarrow> string \<Rightarrow> val" where
  "get_item d k = (case d k of None \<Rightarrow> Undefined | Some v \<Rightarrow> v)"

text \<open>\<^verbatim>\<open>o[k] = v\<close> for the object \<open>o\<close> at address \<open>a\<close>.\<close>

definition set_item :: "addr \<Rightarrow> string \<Rightarrow> val \<Rightarrow> state \<Rightarrow> state" where
  "set_item a k v st = st\<lparr>heap := (heap st)(a := (heap st a)(k \<mapsto> v))\<rparr>"

text \<open>\<^verbatim>\<open>o[k] = o[k']\<close>: the right-hand side is read in the current store.\<close>

definition copy_item :: "addr \<Rightarrow> string \<Rightarrow> string \<Rightarrow> state \<Rightarrow> state" where
  "copy_item a k k' st = set_item a k (get_item (heap st a) k') st"

text \<open>\<^verbatim>\<open>h.change.emit()\<close>: the observers of \<open>h\<close> run on the store as it is now.\<close>

definition emit :: "handle \<Rightarrow> state \<Rightarrow> state" where
  "emit h st = st\<lparr>emitted := emitted st @ [(h, heap st)]\<rparr>"

text \<open>\<^verbatim>\<open>h.active = v\<close>.\<close>

definition set_active :: "handle \<Rightarrow> val \<Rightarrow> state \<Rightarrow> state" where
  "set_active h v st = st\<lparr>active := (active st)(h := v)\<rparr>"

text \<open>A sequence of statements runs from left to right.\<close>

primrec exec :: "(state \<Rightarrow> state) list \<Rightarrow> state \<Rightarrow> state" where
  "exec [] st = st"
| "exec (c # cs) st = exec cs (c st)"

subsection \<open>The callback\<close>

text \<open>
  The four \<^verbatim>\<open>const\<close> declarations, then the eighteen statements of the source in
  their order: twelve assignments to keys, four notifications, two widget assignments.
\<close>

definition reset :: "state \<Rightarrow> state" where
  "reset st =
    (let d2 = data st Xrf;
         d3 = data st Xas;
         rect = data st Sel;
         peak = data st Fluo
     in exec
       [set_item rect ''x'' (Arr []),
        set_item rect ''y'' (Arr []),
        set_item rect ''width'' (Arr []),
        set_item rect ''height'' (Arr []),
        copy_item d2 ''proj_x'' ''proj_x_tot'',
        copy_item d2 ''emission'' ''emission_tot'',
        copy_item d3 ''en'' ''en_tot'',
        copy_item d3 ''proj_y'' ''proj_y_tot'',
        set_item peak ''x'' (Arr []),
        set_item peak ''y'' (Arr []),
        set_item peak ''width'' (Arr []),
        set_item peak ''height'' (Arr []),
        emit Fluo,
        emit Sel,
        emit Xas,
        emit Xrf,
        set_active Det (Arr [Num 0]),
        set_active Alter (Num 2)]
       st)"

subsection \<open>Reading a state\<close>

text \<open>\<^verbatim>\<open>h.data[k]\<close> as a reader of the state sees it.\<close>

definition field :: "state \<Rightarrow> handle \<Rightarrow> string \<Rightarrow> val" where
  "field st h k = get_item (heap st (data st h)) k"

text \<open>The models that one run of the callback notifies, in the order of the calls.\<close>

definition notified :: "state \<Rightarrow> handle list" where
  "notified st = map fst (drop (length (emitted st)) (emitted (reset st)))"

text \<open>The stores that the observers notified by one run find, in the same order.\<close>

definition observed :: "state \<Rightarrow> store list" where
  "observed st = map snd (drop (length (emitted st)) (emitted (reset st)))"

text \<open>The object behind \<^verbatim>\<open>h.data\<close>, with all its keys.\<close>

definition container :: "state \<Rightarrow> handle \<Rightarrow> dict" where
  "container st h = heap st (data st h)"

text \<open>
  The four containers hold the keys that the callback reads or writes: the precondition
  under which no read of the callback yields \<^verbatim>\<open>undefined\<close> for want of a key.
\<close>

definition has_fields :: "state \<Rightarrow> bool" where
  "has_fields st \<longleftrightarrow>
     list_all (\<lambda>k. heap st (data st Xrf) k \<noteq> None)
       [''proj_x'', ''emission'', ''proj_x_tot'', ''emission_tot''] \<and>
     list_all (\<lambda>k. heap st (data st Xas) k \<noteq> None)
       [''en'', ''proj_y'', ''en_tot'', ''proj_y_tot''] \<and>
     list_all (\<lambda>k. heap st (data st Sel) k \<noteq> None)
       [''x'', ''y'', ''width'', ''height''] \<and>
     list_all (\<lambda>k. heap st (data st Fluo) k \<noteq> None)
       [''x'', ''y'', ''width'', ''height'']"

text \<open>Two states read the same values from the four baseline keys.\<close>

definition agree_baseline :: "state \<Rightarrow> state \<Rightarrow> bool" where
  "agree_baseline s t \<longleftrightarrow>
     field s Xrf ''proj_x_tot'' = field t Xrf ''proj_x_tot'' \<and>
     field s Xrf ''emission_tot'' = field t Xrf ''emission_tot'' \<and>
     field s Xas ''en_tot'' = field t Xas ''en_tot'' \<and>
     field s Xas ''proj_y_tot'' = field t Xas ''proj_y_tot''"

text \<open>
  Modelled from the spec: the construction of the four data sources, which is not part
  of the callback and fixes the columns they carry. Section 3 of the specification gives
  them: \<^verbatim>\<open>xrf\<close> holds \<^verbatim>\<open>proj_x\<close>, \<^verbatim>\<open>emission\<close>, \<^verbatim>\<open>proj_x_tot\<close> and \<^verbatim>\<open>emission_tot\<close>; \<^verbatim>\<open>xas\<close>
  holds \<^verbatim>\<open>en\<close>, \<^verbatim>\<open>proj_y\<close>, \<^verbatim>\<open>en_tot\<close> and \<^verbatim>\<open>proj_y_tot\<close>; each overlay holds \<^verbatim>\<open>x\<close>, \<^verbatim>\<open>y\<close>,
  \<^verbatim>\<open>width\<close> and \<^verbatim>\<open>height\<close>. A state has this shape when its containers hold these keys
  and no others.
\<close>

definition spec_shape :: "state \<Rightarrow> bool" where
  "spec_shape st \<longleftrightarrow>
     dom (container st Xrf) = {''proj_x'', ''emission'', ''proj_x_tot'', ''emission_tot''} \<and>
     dom (container st Xas) = {''en'', ''proj_y'', ''en_tot'', ''proj_y_tot''} \<and>
     dom (container st Sel) = {''x'', ''y'', ''width'', ''height''} \<and>
     dom (container st Fluo) = {''x'', ''y'', ''width'', ''height''}"

subsection \<open>Example states\<close>

text \<open>
  Six models with an object each. The contents of \<^verbatim>\<open>xrf\<close> and \<^verbatim>\<open>sel\<close> are those of the
  example scenario of the specification; the parameter is the content of a further
  column \<^verbatim>\<open>sdd1\<close> of \<^verbatim>\<open>xrf\<close>, which the callback never names.
\<close>

definition example_data :: "handle \<Rightarrow> addr" where
  "example_data h = (case h of Xrf \<Rightarrow> 10 | Xas \<Rightarrow> 11 | Sel \<Rightarrow> 12 | Fluo \<Rightarrow> 13 | Det \<Rightarrow> 14 | Alter \<Rightarrow> 15)"

definition example_heap :: "val \<Rightarrow> store" where
  "example_heap v =
     (\<lambda>a. Map.empty)
      (10 := [''proj_x'' \<mapsto> Arr [Num 1, Num 2], ''emission'' \<mapsto> Arr [Num 3, Num 4],
             ''proj_x_tot'' \<mapsto> Arr [Num 0, Num 0, Num 0],
             ''emission_tot'' \<mapsto> Arr [Num 9, Num 9, Num 9], ''sdd1'' \<mapsto> v],
       11 := [''en'' \<mapsto> Arr [Num 5], ''proj_y'' \<mapsto> Arr [Num 6],
             ''en_tot'' \<mapsto> Arr [Num 7, Num 8], ''proj_y_tot'' \<mapsto> Arr [Num 1, Num 1]],
       12 := [''x'' \<mapsto> Arr [Num 1], ''y'' \<mapsto> Arr [Num 2], ''width'' \<mapsto> Arr [Num 3],
             ''height'' \<mapsto> Arr [Num 4]],
       13 := [''x'' \<mapsto> Arr [Num 5], ''y'' \<mapsto> Arr [Num 6], ''width'' \<mapsto> Arr [Num 7],
             ''height'' \<mapsto> Arr [Num 8]])"

definition example_state :: "val \<Rightarrow> state" where
  "example_state v =
     \<lparr>data = example_data, heap = example_heap v,
      active = (\<lambda>h. Undefined)(Det := Arr [Num 1, Num 2], Alter := Num 0),
      emitted = []\<rparr>"

text \<open>
  Two states of the shape above that read the same four baseline values and differ in
  everything else: in the current fields, the overlay fields, the \<^verbatim>\<open>active\<close> properties,
  the addresses of the objects, and the notifications emitted before. In the second
  state \<^verbatim>\<open>sel\<close> and \<^verbatim>\<open>fluo\<close> share one object.
\<close>

definition left_state :: state where
  "left_state =
     \<lparr>data = (\<lambda>h. case h of Xrf \<Rightarrow> 10 | Xas \<Rightarrow> 11 | Sel \<Rightarrow> 12 | Fluo \<Rightarrow> 13
                      | Det \<Rightarrow> 14 | Alter \<Rightarrow> 15),
      heap = (\<lambda>a. Map.empty)
        (10 := [''proj_x'' \<mapsto> Arr [Num 1, Num 2], ''emission'' \<mapsto> Arr [Num 3, Num 4],
                ''proj_x_tot'' \<mapsto> Arr [Num 0, Num 0, Num 0],
                ''emission_tot'' \<mapsto> Arr [Num 9, Num 9, Num 9]],
         11 := [''en'' \<mapsto> Arr [Num 5], ''proj_y'' \<mapsto> Arr [Num 6],
                ''en_tot'' \<mapsto> Arr [Num 7, Num 8], ''proj_y_tot'' \<mapsto> Arr [Num 1, Num 1]],
         12 := [''x'' \<mapsto> Arr [Num 1], ''y'' \<mapsto> Arr [Num 2], ''width'' \<mapsto> Arr [Num 3],
                ''height'' \<mapsto> Arr [Num 4]],
         13 := [''x'' \<mapsto> Arr [Num 5], ''y'' \<mapsto> Arr [Num 6], ''width'' \<mapsto> Arr [Num 7],
                ''height'' \<mapsto> Arr [Num 8]]),
      active = (\<lambda>h. Undefined)(Det := Arr [Num 1, Num 2], Alter := Num 0),
      emitted = []\<rparr>"

definition right_state :: state where
  "right_state =
     \<lparr>data = (\<lambda>h. case h of Xrf \<Rightarrow> 23 | Xas \<Rightarrow> 22 | Sel \<Rightarrow> 21 | Fluo \<Rightarrow> 21
                      | Det \<Rightarrow> 24 | Alter \<Rightarrow> 25),
      heap = (\<lambda>a. Map.empty)
        (23 := [''proj_x'' \<mapsto> Arr [], ''emission'' \<mapsto> Undefined,
                ''proj_x_tot'' \<mapsto> Arr [Num 0, Num 0, Num 0],
                ''emission_tot'' \<mapsto> Arr [Num 9, Num 9, Num 9]],
         22 := [''en'' \<mapsto> Arr [Num 7], ''proj_y'' \<mapsto> Arr [Num 1],
                ''en_tot'' \<mapsto> Arr [Num 7, Num 8], ''proj_y_tot'' \<mapsto> Arr [Num 1, Num 1]],
         21 := [''x'' \<mapsto> Arr [], ''y'' \<mapsto> Arr [], ''width'' \<mapsto> Arr [],
                ''height'' \<mapsto> Arr [Num 2]]),
      active = (\<lambda>h. Undefined)(Det := Arr [Num 0], Alter := Num 1),
      emitted = [(Xrf, (\<lambda>a. Map.empty))]\<rparr>"

section \<open>What each statement does to each part of the state\<close>

lemma data_set_item: "data (set_item a k v st) = data st"
  by (simp add: set_item_def)

lemma data_copy_item: "data (copy_item a k k' st) = data st"
  by (simp add: copy_item_def set_item_def)

lemma data_emit: "data (emit h st) = data st"
  by (simp add: emit_def)

lemma data_set_active: "data (set_active h v st) = data st"
  by (simp add: set_active_def)

lemma active_set_item: "active (set_item a k v st) = active st"
  by (simp add: set_item_def)

lemma active_copy_item: "active (copy_item a k k' st) = active st"
  by (simp add: copy_item_def set_item_def)

lemma active_emit: "active (emit h st) = active st"
  by (simp add: emit_def)

lemma active_set_active: "active (set_active h v st) = (active st)(h := v)"
  by (simp add: set_active_def)

lemma emitted_set_item: "emitted (set_item a k v st) = emitted st"
  by (simp add: set_item_def)

lemma emitted_copy_item: "emitted (copy_item a k k' st) = emitted st"
  by (simp add: copy_item_def set_item_def)

lemma emitted_emit: "emitted (emit h st) = emitted st @ [(h, heap st)]"
  by (simp add: emit_def)

lemma emitted_set_active: "emitted (set_active h v st) = emitted st"
  by (simp add: set_active_def)

lemma heap_emit: "heap (emit h st) = heap st"
  by (simp add: emit_def)

lemma heap_set_active: "heap (set_active h v st) = heap st"
  by (simp add: set_active_def)

lemma heap_set_item:
  "heap (set_item a k v st) b j = (if b = a \<and> j = k then Some v else heap st b j)"
  by (simp add: set_item_def)

lemma heap_copy_item:
  "heap (copy_item a k k' st) b j =
     (if b = a \<and> j = k then Some (get_item (heap st a) k') else heap st b j)"
  by (simp add: copy_item_def set_item_def)

lemmas data_stmt = data_set_item data_copy_item data_emit data_set_active
lemmas active_stmt = active_set_item active_copy_item active_emit active_set_active
lemmas emitted_stmt = emitted_set_item emitted_copy_item emitted_emit emitted_set_active
lemmas heap_stmt = heap_emit heap_set_active heap_set_item heap_copy_item

section \<open>What a run does to each part of the state\<close>

lemma data_reset: "data (reset st) = data st"
  by (simp add: reset_def Let_def data_stmt)

lemma active_reset: "active (reset st) = (active st)(Det := Arr [Num 0], Alter := Num 2)"
  by (simp add: reset_def Let_def active_stmt)

lemma emitted_reset:
  "emitted (reset st) = emitted st @
     [(Fluo, heap (reset st)), (Sel, heap (reset st)), (Xas, heap (reset st)),
      (Xrf, heap (reset st))]"
  by (simp add: reset_def Let_def emitted_stmt heap_emit heap_set_active)

text \<open>
  The store after a run, key by key: a key that the callback never writes is as it was
  in every object; a rectangle key holds the empty array in the two overlay objects; a
  current key of a plot object holds what its baseline key read before the run.
\<close>

lemma heap_reset_other:
  "k \<notin> {''x'', ''y'', ''width'', ''height'', ''proj_x'', ''emission'', ''en'', ''proj_y''}
   \<Longrightarrow> heap (reset st) a k = heap st a k"
  by (simp add: reset_def Let_def heap_stmt)

lemma heap_reset_x:
  "heap (reset st) a ''x'' =
     (if a = data st Sel \<or> a = data st Fluo then Some (Arr []) else heap st a ''x'')"
  by (simp add: reset_def Let_def heap_stmt)

lemma heap_reset_y:
  "heap (reset st) a ''y'' =
     (if a = data st Sel \<or> a = data st Fluo then Some (Arr []) else heap st a ''y'')"
  by (simp add: reset_def Let_def heap_stmt)

lemma heap_reset_width:
  "heap (reset st) a ''width'' =
     (if a = data st Sel \<or> a = data st Fluo then Some (Arr []) else heap st a ''width'')"
  by (simp add: reset_def Let_def heap_stmt)

lemma heap_reset_height:
  "heap (reset st) a ''height'' =
     (if a = data st Sel \<or> a = data st Fluo then Some (Arr []) else heap st a ''height'')"
  by (simp add: reset_def Let_def heap_stmt)

lemma heap_reset_proj_x:
  "heap (reset st) a ''proj_x'' =
     (if a = data st Xrf then Some (get_item (heap st a) ''proj_x_tot'')
      else heap st a ''proj_x'')"
  by (simp add: reset_def Let_def heap_stmt get_item_def)

lemma heap_reset_emission:
  "heap (reset st) a ''emission'' =
     (if a = data st Xrf then Some (get_item (heap st a) ''emission_tot'')
      else heap st a ''emission'')"
  by (simp add: reset_def Let_def heap_stmt get_item_def)

lemma heap_reset_en:
  "heap (reset st) a ''en'' =
     (if a = data st Xas then Some (get_item (heap st a) ''en_tot'')
      else heap st a ''en'')"
  by (simp add: reset_def Let_def heap_stmt get_item_def)

lemma heap_reset_proj_y:
  "heap (reset st) a ''proj_y'' =
     (if a = data st Xas then Some (get_item (heap st a) ''proj_y_tot'')
      else heap st a ''proj_y'')"
  by (simp add: reset_def Let_def heap_stmt get_item_def)

lemmas heap_reset_key = heap_reset_x heap_reset_y heap_reset_width heap_reset_height
  heap_reset_proj_x heap_reset_emission heap_reset_en heap_reset_proj_y

lemma heap_reset_tot:
  "heap (reset st) a ''proj_x_tot'' = heap st a ''proj_x_tot''"
  "heap (reset st) a ''emission_tot'' = heap st a ''emission_tot''"
  "heap (reset st) a ''en_tot'' = heap st a ''en_tot''"
  "heap (reset st) a ''proj_y_tot'' = heap st a ''proj_y_tot''"
  by (simp_all add: heap_reset_other)

lemma heap_reset_idem_key:
  "heap (reset (reset st)) a ''x'' = heap (reset st) a ''x''"
  "heap (reset (reset st)) a ''y'' = heap (reset st) a ''y''"
  "heap (reset (reset st)) a ''width'' = heap (reset st) a ''width''"
  "heap (reset (reset st)) a ''height'' = heap (reset st) a ''height''"
  "heap (reset (reset st)) a ''proj_x'' = heap (reset st) a ''proj_x''"
  "heap (reset (reset st)) a ''emission'' = heap (reset st) a ''emission''"
  "heap (reset (reset st)) a ''en'' = heap (reset st) a ''en''"
  "heap (reset (reset st)) a ''proj_y'' = heap (reset st) a ''proj_y''"
  by (simp_all add: heap_reset_key data_reset get_item_def heap_reset_tot)

lemma heap_reset_idem: "heap (reset (reset st)) a k = heap (reset st) a k"
proof (cases "k \<in> {''x'', ''y'', ''width'', ''height'', ''proj_x'', ''emission'', ''en'', ''proj_y''}")
  case False
  then show ?thesis
    by (simp add: heap_reset_other [OF False])
next
  case True
  then show ?thesis
    by (elim insertE emptyE) (simp_all only: heap_reset_idem_key)
qed

lemma notified_reset: "notified st = [Fluo, Sel, Xas, Xrf]"
  by (simp add: notified_def emitted_reset)

lemma example_data_simps:
  "data (example_state v) Xrf = 10" "data (example_state v) Xas = 11"
  "data (example_state v) Sel = 12" "data (example_state v) Fluo = 13"
  "data (example_state v) Det = 14" "data (example_state v) Alter = 15"
  by (simp_all add: example_state_def example_data_def)

lemma example_heap_simps:
  "heap (example_state v) 10 =
     [''proj_x'' \<mapsto> Arr [Num 1, Num 2], ''emission'' \<mapsto> Arr [Num 3, Num 4],
      ''proj_x_tot'' \<mapsto> Arr [Num 0, Num 0, Num 0],
      ''emission_tot'' \<mapsto> Arr [Num 9, Num 9, Num 9], ''sdd1'' \<mapsto> v]"
  "heap (example_state v) 11 =
     [''en'' \<mapsto> Arr [Num 5], ''proj_y'' \<mapsto> Arr [Num 6],
      ''en_tot'' \<mapsto> Arr [Num 7, Num 8], ''proj_y_tot'' \<mapsto> Arr [Num 1, Num 1]]"
  "heap (example_state v) 12 =
     [''x'' \<mapsto> Arr [Num 1], ''y'' \<mapsto> Arr [Num 2], ''width'' \<mapsto> Arr [Num 3],
      ''height'' \<mapsto> Arr [Num 4]]"
  "heap (example_state v) 13 =
     [''x'' \<mapsto> Arr [Num 5], ''y'' \<mapsto> Arr [Num 6], ''width'' \<mapsto> Arr [Num 7],
      ''height'' \<mapsto> Arr [Num 8]]"
  by (simp_all add: example_state_def example_heap_def)

lemma example_has_fields: "has_fields (example_state v)"
  by (simp add: has_fields_def example_data_simps example_heap_simps)

text \<open>
  In a state of the shape of the data model the plot objects and the overlay objects
  are different objects, and the containers after a run are these four dictionaries.
\<close>

lemma shape_present:
  assumes "spec_shape st"
  shows "(heap st (data st Xrf) k \<noteq> None) =
           (k \<in> {''proj_x'', ''emission'', ''proj_x_tot'', ''emission_tot''})"
    and "(heap st (data st Xas) k \<noteq> None) =
           (k \<in> {''en'', ''proj_y'', ''en_tot'', ''proj_y_tot''})"
    and "(heap st (data st Sel) k \<noteq> None) = (k \<in> {''x'', ''y'', ''width'', ''height''})"
    and "(heap st (data st Fluo) k \<noteq> None) = (k \<in> {''x'', ''y'', ''width'', ''height''})"
  using assms unfolding spec_shape_def container_def
  by (metis domIff)+

lemma shape_distinct:
  assumes "spec_shape st"
  shows "data st Xrf \<noteq> data st Xas" "data st Xrf \<noteq> data st Sel"
    "data st Xrf \<noteq> data st Fluo" "data st Xas \<noteq> data st Sel" "data st Xas \<noteq> data st Fluo"
proof -
  have a: "heap st (data st Xrf) ''proj_x'' \<noteq> None" "heap st (data st Xas) ''proj_x'' = None"
    "heap st (data st Sel) ''proj_x'' = None" "heap st (data st Fluo) ''proj_x'' = None"
    "heap st (data st Xas) ''en'' \<noteq> None"
    "heap st (data st Sel) ''en'' = None" "heap st (data st Fluo) ''en'' = None"
    using shape_present [OF assms, of "''proj_x''"] shape_present [OF assms, of "''en''"]
    by simp_all
  show "data st Xrf \<noteq> data st Xas" using a(1,2) by auto
  show "data st Xrf \<noteq> data st Sel" using a(1,3) by auto
  show "data st Xrf \<noteq> data st Fluo" using a(1,4) by auto
  show "data st Xas \<noteq> data st Sel" using a(5,6) by auto
  show "data st Xas \<noteq> data st Fluo" using a(5,7) by auto
qed


lemma shaped_xrf:
  assumes "spec_shape st"
  shows "container (reset st) Xrf =
     [''proj_x'' \<mapsto> field st Xrf ''proj_x_tot'', ''emission'' \<mapsto> field st Xrf ''emission_tot'',
      ''proj_x_tot'' \<mapsto> field st Xrf ''proj_x_tot'',
      ''emission_tot'' \<mapsto> field st Xrf ''emission_tot'']"
proof (rule ext)
  fix k
  note p = shape_present(1) [OF assms]
  note d = shape_distinct [OF assms]
  have tot: "heap st (data st Xrf) ''proj_x_tot'' = Some (field st Xrf ''proj_x_tot'')"
    "heap st (data st Xrf) ''emission_tot'' = Some (field st Xrf ''emission_tot'')"
    using p [of "''proj_x_tot''"] p [of "''emission_tot''"]
    by (auto simp add: field_def get_item_def)
  have none: "\<And>j. j \<notin> {''proj_x'', ''emission'', ''proj_x_tot'', ''emission_tot''}
      \<Longrightarrow> heap st (data st Xrf) j = None"
    using p by blast
  show "container (reset st) Xrf k =
     [''proj_x'' \<mapsto> field st Xrf ''proj_x_tot'', ''emission'' \<mapsto> field st Xrf ''emission_tot'',
      ''proj_x_tot'' \<mapsto> field st Xrf ''proj_x_tot'',
      ''emission_tot'' \<mapsto> field st Xrf ''emission_tot''] k"
  proof (cases "k \<in> {''x'', ''y'', ''width'', ''height'', ''proj_x'', ''emission'', ''en'', ''proj_y''}")
    case True
    then show ?thesis
      by (elim insertE emptyE)
        (simp_all add: container_def data_reset heap_reset_key d none field_def)
  next
    case False
    show ?thesis
    proof (cases "k \<in> {''proj_x_tot'', ''emission_tot''}")
      case True
      then show ?thesis
        by (elim insertE emptyE) (simp_all add: container_def data_reset heap_reset_tot tot)
    next
      case other: False
      with False have "heap st (data st Xrf) k = None"
        by (intro none) simp
      with False other show ?thesis
        by (simp add: container_def data_reset heap_reset_other [OF False])
    qed
  qed
qed


lemma shaped_xas:
  assumes "spec_shape st"
  shows "container (reset st) Xas =
     [''en'' \<mapsto> field st Xas ''en_tot'', ''proj_y'' \<mapsto> field st Xas ''proj_y_tot'',
      ''en_tot'' \<mapsto> field st Xas ''en_tot'', ''proj_y_tot'' \<mapsto> field st Xas ''proj_y_tot'']"
proof (rule ext)
  fix k
  note p = shape_present(2) [OF assms]
  note d = shape_distinct [OF assms]
  have tot: "heap st (data st Xas) ''en_tot'' = Some (field st Xas ''en_tot'')"
    "heap st (data st Xas) ''proj_y_tot'' = Some (field st Xas ''proj_y_tot'')"
    using p [of "''en_tot''"] p [of "''proj_y_tot''"]
    by (auto simp add: field_def get_item_def)
  have none: "\<And>j. j \<notin> {''en'', ''proj_y'', ''en_tot'', ''proj_y_tot''}
      \<Longrightarrow> heap st (data st Xas) j = None"
    using p by blast
  show "container (reset st) Xas k =
     [''en'' \<mapsto> field st Xas ''en_tot'', ''proj_y'' \<mapsto> field st Xas ''proj_y_tot'',
      ''en_tot'' \<mapsto> field st Xas ''en_tot'', ''proj_y_tot'' \<mapsto> field st Xas ''proj_y_tot''] k"
  proof (cases "k \<in> {''x'', ''y'', ''width'', ''height'', ''proj_x'', ''emission'', ''en'', ''proj_y''}")
    case True
    then show ?thesis
      by (elim insertE emptyE)
        (simp_all add: container_def data_reset heap_reset_key d d(1) [symmetric] none
          field_def)
  next
    case False
    show ?thesis
    proof (cases "k \<in> {''en_tot'', ''proj_y_tot''}")
      case True
      then show ?thesis
        by (elim insertE emptyE) (simp_all add: container_def data_reset heap_reset_tot tot)
    next
      case other: False
      with False have "heap st (data st Xas) k = None"
        by (intro none) simp
      with False other show ?thesis
        by (simp add: container_def data_reset heap_reset_other [OF False])
    qed
  qed
qed

lemma shaped_sel:
  assumes "spec_shape st"
  shows "container (reset st) Sel =
     [''x'' \<mapsto> Arr [], ''y'' \<mapsto> Arr [], ''width'' \<mapsto> Arr [], ''height'' \<mapsto> Arr []]"
proof (rule ext)
  fix k
  note d = shape_distinct [OF assms]
  have none: "\<And>j. j \<notin> {''x'', ''y'', ''width'', ''height''} \<Longrightarrow> heap st (data st Sel) j = None"
    using shape_present(3) [OF assms] by blast
  show "container (reset st) Sel k =
     [''x'' \<mapsto> Arr [], ''y'' \<mapsto> Arr [], ''width'' \<mapsto> Arr [], ''height'' \<mapsto> Arr []] k"
  proof (cases "k \<in> {''x'', ''y'', ''width'', ''height'', ''proj_x'', ''emission'', ''en'', ''proj_y''}")
    case True
    then show ?thesis
      by (elim insertE emptyE)
        (simp_all add: container_def data_reset heap_reset_key d [symmetric] none)
  next
    case False
    then have "heap st (data st Sel) k = None"
      by (intro none) simp
    with False show ?thesis
      by (simp add: container_def data_reset heap_reset_other [OF False])
  qed
qed

lemma shaped_fluo:
  assumes "spec_shape st"
  shows "container (reset st) Fluo =
     [''x'' \<mapsto> Arr [], ''y'' \<mapsto> Arr [], ''width'' \<mapsto> Arr [], ''height'' \<mapsto> Arr []]"
proof (rule ext)
  fix k
  note d = shape_distinct [OF assms]
  have none: "\<And>j. j \<notin> {''x'', ''y'', ''width'', ''height''} \<Longrightarrow> heap st (data st Fluo) j = None"
    using shape_present(4) [OF assms] by blast
  show "container (reset st) Fluo k =
     [''x'' \<mapsto> Arr [], ''y'' \<mapsto> Arr [], ''width'' \<mapsto> Arr [], ''height'' \<mapsto> Arr []] k"
  proof (cases "k \<in> {''x'', ''y'', ''width'', ''height'', ''proj_x'', ''emission'', ''en'', ''proj_y''}")
    case True
    then show ?thesis
      by (elim insertE emptyE)
        (simp_all add: container_def data_reset heap_reset_key d [symmetric] none)
  next
    case False
    then have "heap st (data st Fluo) k = None"
      by (intro none) simp
    with False show ?thesis
      by (simp add: container_def data_reset heap_reset_other [OF False])
  qed
qed

lemma left_shape: "spec_shape left_state"
  by (auto simp add: spec_shape_def container_def left_state_def)

lemma right_shape: "spec_shape right_state"
  by (auto simp add: spec_shape_def container_def right_state_def)

lemma left_right_agree: "agree_baseline left_state right_state"
  by (simp add: agree_baseline_def field_def get_item_def left_state_def right_state_def)

section \<open>The claims\<close>

text \<open>
  C1. After a run the current fields read the same as the baseline fields:
  \<^verbatim>\<open>xrf.data.proj_x\<close> as \<^verbatim>\<open>proj_x_tot\<close>, \<^verbatim>\<open>xrf.data.emission\<close> as \<^verbatim>\<open>emission_tot\<close>,
  \<^verbatim>\<open>xas.data.en\<close> as \<^verbatim>\<open>en_tot\<close> and \<^verbatim>\<open>xas.data.proj_y\<close> as \<^verbatim>\<open>proj_y_tot\<close>, the same value
  and so the same length and elements, and this is the value that the baseline field
  had before the run, whatever it was and whichever objects the models share.
\<close>

theorem reset_current_equals_baseline:
  "field (reset st) Xrf ''proj_x'' = field (reset st) Xrf ''proj_x_tot'' \<and>
   field (reset st) Xrf ''emission'' = field (reset st) Xrf ''emission_tot'' \<and>
   field (reset st) Xas ''en'' = field (reset st) Xas ''en_tot'' \<and>
   field (reset st) Xas ''proj_y'' = field (reset st) Xas ''proj_y_tot'' \<and>
   field (reset st) Xrf ''proj_x'' = field st Xrf ''proj_x_tot'' \<and>
   field (reset st) Xrf ''emission'' = field st Xrf ''emission_tot'' \<and>
   field (reset st) Xas ''en'' = field st Xas ''en_tot'' \<and>
   field (reset st) Xas ''proj_y'' = field st Xas ''proj_y_tot''"
  by (simp add: field_def data_reset heap_reset_key heap_reset_tot get_item_def)

text \<open>
  C2. One run appends exactly four change notifications to those emitted before, on
  \<^verbatim>\<open>fluo\<close> (the peak markers), then \<^verbatim>\<open>sel\<close> (the selection), then \<^verbatim>\<open>xas\<close>, then \<^verbatim>\<open>xrf\<close>:
  each of the four sources is notified exactly once, in this order.
\<close>

theorem reset_notifies_each_source_once:
  "take (length (emitted st)) (emitted (reset st)) = emitted st \<and>
   length (emitted (reset st)) = length (emitted st) + 4 \<and>
   notified st = [Fluo, Sel, Xas, Xrf] \<and>
   count_list (notified st) Fluo = 1 \<and> count_list (notified st) Sel = 1 \<and>
   count_list (notified st) Xas = 1 \<and> count_list (notified st) Xrf = 1"
proof -
  have "take (length (emitted st)) (emitted (reset st)) = emitted st"
    by (subst emitted_reset) simp
  moreover have "length (emitted (reset st)) = length (emitted st) + 4"
    by (subst emitted_reset) simp
  ultimately show ?thesis
    by (simp add: notified_reset)
qed

text \<open>
  C3. After a run the eight overlay fields, \<^verbatim>\<open>x\<close>, \<^verbatim>\<open>y\<close>, \<^verbatim>\<open>width\<close> and \<^verbatim>\<open>height\<close> of
  \<^verbatim>\<open>sel.data\<close> and of \<^verbatim>\<open>fluo.data\<close>, are empty arrays, whatever they held before.
\<close>

theorem reset_overlays_empty:
  "field (reset st) Sel ''x'' = Arr [] \<and> field (reset st) Sel ''y'' = Arr [] \<and>
   field (reset st) Sel ''width'' = Arr [] \<and> field (reset st) Sel ''height'' = Arr [] \<and>
   field (reset st) Fluo ''x'' = Arr [] \<and> field (reset st) Fluo ''y'' = Arr [] \<and>
   field (reset st) Fluo ''width'' = Arr [] \<and> field (reset st) Fluo ''height'' = Arr []"
  by (simp add: field_def data_reset heap_reset_key get_item_def)

text \<open>
  C4. A second run directly after a first changes nothing in the containers or the
  widgets: the \<^verbatim>\<open>data\<close> objects, the whole store and every \<^verbatim>\<open>active\<close> property are
  after two runs what they are after one.
\<close>

theorem reset_idempotent:
  "data (reset (reset st)) = data (reset st) \<and>
   heap (reset (reset st)) = heap (reset st) \<and>
   active (reset (reset st)) = active (reset st)"
proof -
  have "heap (reset (reset st)) = heap (reset st)"
    by (rule ext, rule ext, rule heap_reset_idem)
  then show ?thesis
    by (simp add: data_reset active_reset)
qed

text \<open>
  C5. A run leaves the four baseline fields as they were, their presence and their
  value: \<^verbatim>\<open>proj_x_tot\<close> and \<^verbatim>\<open>emission_tot\<close> of \<^verbatim>\<open>xrf.data\<close>, \<^verbatim>\<open>en_tot\<close> and \<^verbatim>\<open>proj_y_tot\<close> of
  \<^verbatim>\<open>xas.data\<close>. The current fields \<^verbatim>\<open>proj_x\<close>, \<^verbatim>\<open>emission\<close>, \<^verbatim>\<open>en\<close> and \<^verbatim>\<open>proj_y\<close> are
  overwritten with what the baseline fields read.
\<close>

theorem reset_keeps_baseline:
  "container (reset st) Xrf ''proj_x_tot'' = container st Xrf ''proj_x_tot'' \<and>
   container (reset st) Xrf ''emission_tot'' = container st Xrf ''emission_tot'' \<and>
   container (reset st) Xas ''en_tot'' = container st Xas ''en_tot'' \<and>
   container (reset st) Xas ''proj_y_tot'' = container st Xas ''proj_y_tot'' \<and>
   container (reset st) Xrf ''proj_x'' = Some (get_item (container st Xrf) ''proj_x_tot'') \<and>
   container (reset st) Xrf ''emission'' = Some (get_item (container st Xrf) ''emission_tot'') \<and>
   container (reset st) Xas ''en'' = Some (get_item (container st Xas) ''en_tot'') \<and>
   container (reset st) Xas ''proj_y'' = Some (get_item (container st Xas) ''proj_y_tot'')"
  by (simp add: container_def data_reset heap_reset_key heap_reset_tot)

text \<open>
  C6. After a run the \<^verbatim>\<open>active\<close> property of the detector widget \<^verbatim>\<open>det\<close> is the
  one-element array \<^verbatim>\<open>[0]\<close> and that of the toggle widget \<^verbatim>\<open>alter\<close> is the number 2,
  whatever they were before.
\<close>

theorem reset_widgets_active:
  "active (reset st) Det = Arr [Num 0] \<and> active (reset st) Alter = Num 2"
  by (simp add: active_reset)

text \<open>
  C7. The callback has no error branch: \<open>reset\<close> is a total function on states, and
  reading an absent key yields \<^verbatim>\<open>undefined\<close> instead of failing. When the four containers
  hold their expected keys, a run completes the seven effects with no \<^verbatim>\<open>undefined\<close>
  read for want of a key: the selection keys hold empty arrays, the current keys of
  \<^verbatim>\<open>xrf.data\<close> and of \<^verbatim>\<open>xas.data\<close> hold the very entries of their baseline keys, the peak
  keys hold empty arrays, the four notifications are emitted in their order, and the two
  widgets are set.
\<close>

theorem reset_completes_effects:
  assumes "has_fields st"
  shows
    "(container (reset st) Sel ''x'' = Some (Arr []) \<and>
      container (reset st) Sel ''y'' = Some (Arr []) \<and>
      container (reset st) Sel ''width'' = Some (Arr []) \<and>
      container (reset st) Sel ''height'' = Some (Arr [])) \<and>
     (container (reset st) Xrf ''proj_x'' = container st Xrf ''proj_x_tot'' \<and>
      container (reset st) Xrf ''emission'' = container st Xrf ''emission_tot'') \<and>
     (container (reset st) Xas ''en'' = container st Xas ''en_tot'' \<and>
      container (reset st) Xas ''proj_y'' = container st Xas ''proj_y_tot'') \<and>
     (container (reset st) Fluo ''x'' = Some (Arr []) \<and>
      container (reset st) Fluo ''y'' = Some (Arr []) \<and>
      container (reset st) Fluo ''width'' = Some (Arr []) \<and>
      container (reset st) Fluo ''height'' = Some (Arr [])) \<and>
     notified st = [Fluo, Sel, Xas, Xrf] \<and>
     active (reset st) Det = Arr [Num 0] \<and>
     active (reset st) Alter = Num 2"
proof -
  from assms obtain v1 v2 v3 v4 where
    "heap st (data st Xrf) ''proj_x_tot'' = Some v1"
    "heap st (data st Xrf) ''emission_tot'' = Some v2"
    "heap st (data st Xas) ''en_tot'' = Some v3"
    "heap st (data st Xas) ''proj_y_tot'' = Some v4"
    by (auto simp add: has_fields_def)
  then show ?thesis
    by (simp add: container_def data_reset heap_reset_key get_item_def notified_reset
        active_reset)
qed

theorem reset_completes_effects_witness:
  "has_fields (example_state Undefined) \<and>
   container (reset (example_state Undefined)) Sel ''x'' = Some (Arr []) \<and>
   container (reset (example_state Undefined)) Xrf ''proj_x'' =
     Some (Arr [Num 0, Num 0, Num 0]) \<and>
   container (reset (example_state Undefined)) Xrf ''emission'' =
     Some (Arr [Num 9, Num 9, Num 9]) \<and>
   container (reset (example_state Undefined)) Xas ''en'' = Some (Arr [Num 7, Num 8]) \<and>
   container (reset (example_state Undefined)) Fluo ''height'' = Some (Arr []) \<and>
   notified (example_state Undefined) = [Fluo, Sel, Xas, Xrf] \<and>
   active (reset (example_state Undefined)) Det = Arr [Num 0] \<and>
   active (reset (example_state Undefined)) Alter = Num 2"
  using reset_completes_effects [OF example_has_fields, of Undefined]
  by (simp add: example_has_fields container_def example_data_simps example_heap_simps)

text \<open>
  C8. The final state depends on the four baseline fields only. Two runs on states of
  the shape of the data model that read the same values from \<^verbatim>\<open>xrf.data.proj_x_tot\<close>,
  \<^verbatim>\<open>xrf.data.emission_tot\<close>, \<^verbatim>\<open>xas.data.en_tot\<close> and \<^verbatim>\<open>xas.data.proj_y_tot\<close> end with the same
  four containers, key for key, and the same \<^verbatim>\<open>active\<close> in both widgets, and they notify
  the same models in the same order, whatever the other fields and the widgets held.
\<close>

theorem reset_final_state_depends_on_baseline:
  assumes "spec_shape s" and "spec_shape t" and "agree_baseline s t"
  shows
    "container (reset s) Xrf = container (reset t) Xrf \<and>
     container (reset s) Xas = container (reset t) Xas \<and>
     container (reset s) Sel = container (reset t) Sel \<and>
     container (reset s) Fluo = container (reset t) Fluo \<and>
     active (reset s) Det = active (reset t) Det \<and>
     active (reset s) Alter = active (reset t) Alter \<and>
     notified s = notified t"
proof -
  have "container (reset s) Xrf = container (reset t) Xrf"
    using assms(3) by (simp add: shaped_xrf [OF assms(1)] shaped_xrf [OF assms(2)]
        agree_baseline_def)
  moreover have "container (reset s) Xas = container (reset t) Xas"
    using assms(3) by (simp add: shaped_xas [OF assms(1)] shaped_xas [OF assms(2)]
        agree_baseline_def)
  moreover have "container (reset s) Sel = container (reset t) Sel"
    by (simp add: shaped_sel [OF assms(1)] shaped_sel [OF assms(2)])
  moreover have "container (reset s) Fluo = container (reset t) Fluo"
    by (simp add: shaped_fluo [OF assms(1)] shaped_fluo [OF assms(2)])
  ultimately show ?thesis
    by (simp add: active_reset notified_reset)
qed

text \<open>
  The two example states differ before the run in current fields, overlay fields and
  widgets, and agree after it.
\<close>

theorem reset_final_state_depends_on_baseline_witness:
  "spec_shape left_state \<and> spec_shape right_state \<and> agree_baseline left_state right_state \<and>
   (field left_state Xrf ''proj_x'' \<noteq> field right_state Xrf ''proj_x'' \<and>
    field left_state Xas ''en'' \<noteq> field right_state Xas ''en'' \<and>
    field left_state Sel ''x'' \<noteq> field right_state Sel ''x'' \<and>
    field left_state Fluo ''y'' \<noteq> field right_state Fluo ''y'' \<and>
    active left_state Det \<noteq> active right_state Det \<and>
    active left_state Alter \<noteq> active right_state Alter) \<and>
   (container (reset left_state) Xrf = container (reset right_state) Xrf \<and>
    container (reset left_state) Xas = container (reset right_state) Xas \<and>
    container (reset left_state) Sel = container (reset right_state) Sel \<and>
    container (reset left_state) Fluo = container (reset right_state) Fluo \<and>
    active (reset left_state) Det = active (reset right_state) Det \<and>
    active (reset left_state) Alter = active (reset right_state) Alter \<and>
    notified left_state = notified right_state)"
proof -
  have differ:
    "field left_state Xrf ''proj_x'' \<noteq> field right_state Xrf ''proj_x'' \<and>
     field left_state Xas ''en'' \<noteq> field right_state Xas ''en'' \<and>
     field left_state Sel ''x'' \<noteq> field right_state Sel ''x'' \<and>
     field left_state Fluo ''y'' \<noteq> field right_state Fluo ''y'' \<and>
     active left_state Det \<noteq> active right_state Det \<and>
     active left_state Alter \<noteq> active right_state Alter"
    by (simp add: field_def get_item_def left_state_def right_state_def)
  from left_shape right_shape left_right_agree differ
    reset_final_state_depends_on_baseline [OF left_shape right_shape left_right_agree]
  show ?thesis
    by blast
qed

text \<open>
  C9. The twelve assignments to the containers come before the first notification: each
  of the four notified observers finds the store exactly as it is at the end of the
  run, and the \<^verbatim>\<open>data\<close> objects are the same ones, so every container field already
  holds its final value.
\<close>

theorem reset_notifies_after_mutations:
  "observed st = [heap (reset st), heap (reset st), heap (reset st), heap (reset st)] \<and>
   data (reset st) = data st"
proof -
  have "observed st = [heap (reset st), heap (reset st), heap (reset st), heap (reset st)]"
    unfolding observed_def by (subst emitted_reset) simp
  then show ?thesis
    by (simp add: data_reset)
qed

text \<open>
  C10. A run makes no notification call on a widget: neither \<^verbatim>\<open>det\<close> nor \<^verbatim>\<open>alter\<close> is
  among the notified models. Of a widget only \<^verbatim>\<open>active\<close> is assigned; its \<^verbatim>\<open>data\<close>
  property is as before.
\<close>

theorem reset_never_notifies_widgets:
  "Det \<notin> set (notified st) \<and> Alter \<notin> set (notified st) \<and>
   data (reset st) Det = data st Det \<and> data (reset st) Alter = data st Alter"
  by (simp add: notified_reset data_reset)

end
